theory Spec2Isabelle
  imports Complex_Main
begin

section \<open>Python values, exceptions and the interpreter state\<close>

text \<open>
  The program is one Streamlit script, \<^verbatim>\<open>main.py\<close>. A run of the script is a
  sequence of statements over the module namespace; every \<^verbatim>\<open>st.*\<close> call appends
  an element to the page. The script is embedded statement by statement as a
  state-and-exception computation.

  Python exceptions. \<open>OtherException\<close> stands for any further class deriving from
  \<^verbatim>\<open>Exception\<close> (an unpickling error, a shape mismatch inside the model, ...).
  \<open>SystemExit\<close> and \<open>KeyboardInterrupt\<close> derive from \<^verbatim>\<open>BaseException\<close> only.
\<close>

datatype exn =
    FileNotFoundError
  | NameError string
  | AttributeError
  | IndexError
  | KeyError
  | TypeError
  | ValueError
  | OtherException string
  | SystemExit
  | KeyboardInterrupt

fun is_Exception :: "exn \<Rightarrow> bool" where
  "is_Exception SystemExit = False"
| "is_Exception KeyboardInterrupt = False"
| "is_Exception _ = True"

fun is_FileNotFoundError :: "exn \<Rightarrow> bool" where
  "is_FileNotFoundError FileNotFoundError = True"
| "is_FileNotFoundError _ = False"

text \<open>
  Python objects the script handles. A float is its exact value (\<open>PFloat\<close>) or one of
  the three non-finite values. \<open>PObj h\<close> is an opaque object (what \<^verbatim>\<open>joblib.load\<close>
  deserialises); what its \<^verbatim>\<open>predict\<close> method does is given by the world below.
  \<open>PDataFrame\<close> is a \<^verbatim>\<open>pandas.DataFrame\<close> built from a dict of columns.
\<close>

datatype pyval =
    PNone
  | PFloat real
  | PInf
  | PNegInf
  | PNaN
  | PStr string
  | PList "pyval list"
  | PDataFrame "(string \<times> pyval list) list"
  | PModule string
  | PFunction string
  | PObj nat


text \<open>
  What the page shows: one element per \<^verbatim>\<open>st.*\<close> call, in call order. The fixed
  Spanish texts are not spelled out; the interpolated parts of the f-strings are kept.
  \<open>Layout f\<close> is a call of \<^verbatim>\<open>st.f\<close> with a constant text. \<open>Slider\<close> keeps
  \<^verbatim>\<open>min_value\<close>, \<^verbatim>\<open>max_value\<close>, \<^verbatim>\<open>value\<close> and \<^verbatim>\<open>step\<close>.
\<close>

datatype element =
    Layout string
  | Slider real real real int
  | Button
  | Error_model_not_found string
  | Subheader_result
  | Success_predicted string
  | Info_result
  | Error_prediction exn
  | Warning_model_not_loaded

text \<open>
  The state of the interpreter. \<open>globals\<close> is the module namespace of the running
  script and \<open>screen\<close> the page rendered so far. \<open>cache\<close> is the store behind
  \<^verbatim>\<open>@st.cache_resource\<close>: it outlives a run of the script. \<open>loads\<close> and
  \<open>predicts\<close> record the calls made to \<^verbatim>\<open>joblib.load\<close> and to the model's
  \<^verbatim>\<open>predict\<close>, with their arguments.
\<close>

record state =
  globals :: "string \<rightharpoonup> pyval"
  screen :: "element list"
  cache :: "string \<rightharpoonup> (pyval \<times> element list)"
  loads :: "string list"
  predicts :: "pyval list"

text \<open>
  What is outside the script: the file system seen through \<^verbatim>\<open>joblib.load\<close>, and
  the \<^verbatim>\<open>predict\<close> attribute of an object (\<open>None\<close> when the object has none).
\<close>

record world =
  joblib_load :: "string \<Rightarrow> exn + pyval"
  predict_of :: "pyval \<Rightarrow> (pyval \<Rightarrow> exn + pyval) option"

text \<open>What the user does on the page: the three slider positions and the button.\<close>

record ui =
  slider_amina :: pyval
  slider_air :: pyval
  slider_iron :: pyval
  button :: bool

type_synonym 'a py = "state \<Rightarrow> (exn + 'a) \<times> state"

definition return_py :: "'a \<Rightarrow> 'a py" where
  "return_py a s = (Inr a, s)"

definition raise_py :: "exn \<Rightarrow> 'a py" where
  "raise_py e s = (Inl e, s)"

definition bind_py :: "'a py \<Rightarrow> ('a \<Rightarrow> 'b py) \<Rightarrow> 'b py" where
  "bind_py m f s = (case m s of (Inl e, s') \<Rightarrow> (Inl e, s') | (Inr a, s') \<Rightarrow> f a s')"

definition seq_py :: "'a py \<Rightarrow> 'b py \<Rightarrow> 'b py" where
  "seq_py m k = bind_py m (\<lambda>_. k)"

text \<open>\<^verbatim>\<open>try: m except Exception as e: h e\<close>\<close>

definition try_except_Exception :: "'a py \<Rightarrow> (exn \<Rightarrow> 'a py) \<Rightarrow> 'a py" where
  "try_except_Exception m h s =
     (case m s of
        (Inl e, s') \<Rightarrow> if is_Exception e then h e s' else (Inl e, s')
      | (Inr a, s') \<Rightarrow> (Inr a, s'))"

text \<open>\<^verbatim>\<open>try: m except FileNotFoundError: h\<close>\<close>

definition try_except_FileNotFoundError :: "'a py \<Rightarrow> 'a py \<Rightarrow> 'a py" where
  "try_except_FileNotFoundError m h s =
     (case m s of
        (Inl e, s') \<Rightarrow> if is_FileNotFoundError e then h s' else (Inl e, s')
      | (Inr a, s') \<Rightarrow> (Inr a, s'))"

text \<open>Reading and binding a name of the module namespace.\<close>

definition lookup_name :: "string \<Rightarrow> pyval py" where
  "lookup_name n s = (case globals s n of None \<Rightarrow> (Inl (NameError n), s) | Some v \<Rightarrow> (Inr v, s))"

definition assign :: "string \<Rightarrow> pyval \<Rightarrow> unit py" where
  "assign n v s = (Inr (), s\<lparr>globals := (globals s)(n \<mapsto> v)\<rparr>)"

definition st :: "element \<Rightarrow> unit py" where
  "st el s = (Inr (), s\<lparr>screen := screen s @ [el]\<rparr>)"

section \<open>Operations on Python values\<close>

text \<open>\<^verbatim>\<open>x[0]\<close>\<close>

fun getitem0 :: "pyval \<Rightarrow> exn + pyval" where
  "getitem0 (PList []) = Inl IndexError"
| "getitem0 (PList (x # xs)) = Inr x"
| "getitem0 (PStr []) = Inl IndexError"
| "getitem0 (PStr (c # cs)) = Inr (PStr [c])"
| "getitem0 (PDataFrame cols) = Inl KeyError"
| "getitem0 _ = Inl TypeError"

text \<open>
  Decimal digits of a natural number, and Python's \<^verbatim>\<open>format(x, ".2f")\<close>: the
  value rounded to two decimals, ties to even, with the sign of a negative value kept.
\<close>

definition digit :: "nat \<Rightarrow> char" where
  "digit n = ''0123456789'' ! n"

fun decimal :: "nat \<Rightarrow> string" where
  "decimal n = (if n < 10 then [digit n] else decimal (n div 10) @ [digit (n mod 10)])"

declare decimal.simps [simp del]

definition round_half_even :: "real \<Rightarrow> int" where
  "round_half_even x =
     (let f = \<lfloor>x\<rfloor>; d = x - of_int f
      in if d < 1 / 2 then f else if 1 / 2 < d then f + 1 else if even f then f else f + 1)"

definition format_2f_real :: "real \<Rightarrow> string" where
  "format_2f_real x =
     (let n = nat (round_half_even (\<bar>x\<bar> * 100))
      in (if x < 0 then ''-'' else '''') @ decimal (n div 100) @ ''.''
         @ [digit (n mod 100 div 10), digit (n mod 10)])"

fun format_2f :: "pyval \<Rightarrow> exn + string" where
  "format_2f (PFloat x) = Inr (format_2f_real x)"
| "format_2f PInf = Inr ''inf''"
| "format_2f PNegInf = Inr ''-inf''"
| "format_2f PNaN = Inr ''nan''"
| "format_2f (PStr s) = Inl ValueError"
| "format_2f _ = Inl TypeError"

definition lift_py :: "exn + 'a \<Rightarrow> 'a py" where
  "lift_py r s = (r, s)"

section \<open>The script\<close>

subsection \<open>Loading the model (lines 17 to 28)\<close>

text \<open>The call \<^verbatim>\<open>joblib.load(model_path)\<close>, recorded in \<open>loads\<close>.\<close>

definition joblib_load_call :: "world \<Rightarrow> string \<Rightarrow> pyval py" where
  "joblib_load_call w model_path s = (joblib_load w model_path, s\<lparr>loads := loads s @ [model_path]\<rparr>)"

text \<open>The body of \<^verbatim>\<open>load_model\<close>.\<close>

definition load_model :: "world \<Rightarrow> string \<Rightarrow> pyval py" where
  "load_model w model_path =
     try_except_FileNotFoundError
       (joblib_load_call w model_path)
       (seq_py (st (Error_model_not_found model_path)) (return_py PNone))"

text \<open>
  The decorator \<^verbatim>\<open>@st.cache_resource\<close> of the Streamlit library, as the library
  documents it and as the comment above \<^verbatim>\<open>load_model\<close> relies on: the first call
  for an argument that returns stores the returned object together with the elements
  the call displayed; a later call for that argument returns the stored object without
  running the function and displays the stored elements again. A call that raises
  stores nothing.
\<close>

definition cache_resource :: "(string \<Rightarrow> pyval py) \<Rightarrow> string \<Rightarrow> pyval py" where
  "cache_resource f arg s =
     (case cache s arg of
        Some (v, els) \<Rightarrow> (Inr v, s\<lparr>screen := screen s @ els\<rparr>)
      | None \<Rightarrow>
          (case f arg s of
             (Inl e, s') \<Rightarrow> (Inl e, s')
           | (Inr v, s') \<Rightarrow>
               (Inr v, s'\<lparr>cache := (cache s')(arg \<mapsto> (v, drop (length (screen s)) (screen s')))\<rparr>)))"

definition load_model_cached :: "world \<Rightarrow> string \<Rightarrow> pyval py" where
  "load_model_cached w = cache_resource (load_model w)"

text \<open>\<open>n\<close> calls of the decorated function in a row, with the results of all of them.\<close>

fun load_calls :: "world \<Rightarrow> string \<Rightarrow> nat \<Rightarrow> state \<Rightarrow> (exn + pyval) list \<times> state" where
  "load_calls w p 0 s = ([], s)"
| "load_calls w p (Suc n) s =
     (case load_model_cached w p s of (r, s') \<Rightarrow>
        (case load_calls w p n s' of (rs, s'') \<Rightarrow> (r # rs, s'')))"

subsection \<open>The sidebar (lines 31 to 65)\<close>

definition sidebar :: "ui \<Rightarrow> unit py" where
  "sidebar u =
     seq_py (st (Layout ''header''))
    (seq_py (st (Layout ''markdown''))
    (seq_py (st (Slider 241.7 739.3 488.43 1))
    (seq_py (assign ''flowrate1'' (slider_amina u))
    (seq_py (st (Layout ''caption''))
    (seq_py (st (Slider 175.85 372.44 200.13 1))
    (seq_py (assign ''Flowrate2'' (slider_air u))
    (seq_py (st (Layout ''caption''))
    (seq_py (st (Slider 62.51 68.01 65.04 1))
    (seq_py (assign ''concentration'' (slider_iron u))
            (st (Layout ''caption'')))))))))))"

subsection \<open>The prediction (lines 80 to 101)\<close>

text \<open>Lines 85 to 89: the names are read in the order of the dict display.\<close>

definition build_df_input :: "unit py" where
  "build_df_input =
     bind_py (lookup_name ''Flowrate1'') (\<lambda>a.
     bind_py (lookup_name ''Flowrate2'') (\<lambda>b.
     bind_py (lookup_name ''Concentration'') (\<lambda>c.
       assign ''df_input''
         (PDataFrame [(''Amina Flow'', [a]),
                      (''Flotation Column 01 Air Flow'', [b]),
                      (''% Iron Concentrate'', [c])]))))"

text \<open>
  \<^verbatim>\<open>model.predict(df_input)\<close>: the attribute is looked up on the object, then
  the argument is evaluated, then the method is called (recorded in \<open>predicts\<close>).
\<close>

definition call_predict :: "world \<Rightarrow> pyval py" where
  "call_predict w =
     bind_py (lookup_name ''model'') (\<lambda>m.
       case predict_of w m of
         None \<Rightarrow> raise_py AttributeError
       | Some f \<Rightarrow>
           bind_py (lookup_name ''df_input'') (\<lambda>df.
             (\<lambda>s. (f df, s\<lparr>predicts := predicts s @ [df]\<rparr>))))"

text \<open>Line 96: \<^verbatim>\<open>st.success(f"... `{concentration_value[0]:.2f}%`")\<close>.\<close>

definition show_success :: "unit py" where
  "show_success =
     bind_py (lookup_name ''concentration_value'') (\<lambda>cv.
     bind_py (lift_py (getitem0 cv)) (\<lambda>x.
     bind_py (lift_py (format_2f x)) (\<lambda>txt.
       st (Success_predicted (txt @ ''%'')))))"

text \<open>Lines 92 to 99: the \<^verbatim>\<open>try\<close> statement.\<close>

definition predict_try :: "world \<Rightarrow> unit py" where
  "predict_try w =
     try_except_Exception
       (bind_py (call_predict w) (\<lambda>cv.
        seq_py (assign ''concentration_value'' cv)
       (seq_py (st Subheader_result)
       (seq_py show_success
               (st Info_result)))))
       (\<lambda>e. st (Error_prediction e))"

text \<open>Lines 80 to 101.\<close>

definition prediction_logic :: "world \<Rightarrow> ui \<Rightarrow> unit py" where
  "prediction_logic w u =
     bind_py (lookup_name ''model'') (\<lambda>m.
       if m \<noteq> PNone then
         seq_py (st Button)
           (if button u then seq_py build_df_input (predict_try w) else return_py ())
       else st Warning_model_not_loaded)"

subsection \<open>The whole script\<close>

text \<open>Lines 2 to 18: the imports, the page configuration, the \<^verbatim>\<open>def\<close>.\<close>

definition preamble :: "unit py" where
  "preamble =
     seq_py (assign ''joblib'' (PModule ''joblib''))
    (seq_py (assign ''st'' (PModule ''streamlit''))
    (seq_py (assign ''pd'' (PModule ''pandas''))
    (seq_py (st (Layout ''set_page_config''))
            (assign ''load_model'' (PFunction ''load_model'')))))"

definition script :: "world \<Rightarrow> ui \<Rightarrow> unit py" where
  "script w u =
     seq_py preamble
    (seq_py (bind_py (load_model_cached w ''modelo.joblib'') (assign ''model''))
    (seq_py (sidebar u)
    (seq_py (st (Layout ''title''))
    (seq_py (st (Layout ''markdown''))
    (seq_py (prediction_logic w u)
    (seq_py (st (Layout ''divider''))
    (seq_py (st (Layout ''expander''))
            (st (Layout ''markdown'')))))))))"

text \<open>
  A run of the script starts from a fresh namespace and an empty page; the cache and
  the call records are what the process has accumulated so far.
\<close>

definition fresh :: "state \<Rightarrow> state" where
  "fresh s = s\<lparr>globals := Map.empty, screen := []\<rparr>"

definition run :: "world \<Rightarrow> ui \<Rightarrow> state \<Rightarrow> (exn + unit) \<times> state" where
  "run w u s = script w u (fresh s)"

definition process_start :: state where
  "process_start = \<lparr>globals = Map.empty, screen = [], cache = Map.empty, loads = [], predicts = []\<rparr>"

section \<open>Stub worlds and concrete inputs\<close>

text \<open>
  The widgets are the toolkit's: a slider hands back the position the user chose and the
  button whether it was pressed. What the toolkit itself does with the arguments of a
  widget call is outside this development.

  \<open>stub_world r\<close>: the model file holds an object whose \<^verbatim>\<open>predict\<close> answers \<open>r\<close>
  to every record. \<open>load_failure_world e\<close>: \<^verbatim>\<open>joblib.load\<close> raises \<open>e\<close>.
\<close>

definition stub_world :: "(exn + pyval) \<Rightarrow> world" where
  "stub_world r =
     \<lparr>joblib_load = (\<lambda>p. Inr (PObj 0)),
      predict_of = (\<lambda>v. if v = PObj 0 then Some (\<lambda>df. r) else None)\<rparr>"

definition stub_167 :: world where
  "stub_167 = stub_world (Inr (PList [PFloat 1.67]))"

definition load_failure_world :: "exn \<Rightarrow> world" where
  "load_failure_world e = \<lparr>joblib_load = (\<lambda>p. Inl e), predict_of = (\<lambda>v. None)\<rparr>"

definition sliders :: "pyval \<Rightarrow> pyval \<Rightarrow> pyval \<Rightarrow> bool \<Rightarrow> ui" where
  "sliders a b c pressed = \<lparr>slider_amina = a, slider_air = b, slider_iron = c, button = pressed\<rparr>"

definition scenario :: ui where
  "scenario = sliders (PFloat 488.43) (PFloat 200.13) (PFloat 65.04) True"

definition idle :: ui where
  "idle = sliders (PFloat 488.43) (PFloat 200.13) (PFloat 65.04) False"

text \<open>The record of lines 85 to 89 for three given values.\<close>

definition record_of :: "pyval \<Rightarrow> pyval \<Rightarrow> pyval \<Rightarrow> pyval" where
  "record_of a b c =
     PDataFrame [(''Amina Flow'', [a]),
                 (''Flotation Column 01 Air Flow'', [b]),
                 (''% Iron Concentrate'', [c])]"

definition scenario_record :: pyval where
  "scenario_record = record_of (PFloat 488.43) (PFloat 200.13) (PFloat 65.04)"

text \<open>A state at the \<^verbatim>\<open>try\<close> statement: the model and the record are bound.\<close>

definition ready :: "pyval \<Rightarrow> state" where
  "ready df = process_start\<lparr>globals := [''model'' \<mapsto> PObj 0, ''df_input'' \<mapsto> df]\<rparr>"

text \<open>A process in which the model has been loaded and cached before.\<close>

definition loaded_state :: state where
  "loaded_state = process_start\<lparr>cache := [''modelo.joblib'' \<mapsto> (PObj 0, [])]\<rparr>"

text \<open>The state in which line 28 calls \<^verbatim>\<open>load_model\<close>.\<close>

definition at_load :: "state \<Rightarrow> state" where
  "at_load s = snd (preamble (fresh s))"

text \<open>What the sidebar and the head of the main page render, and the foot of the page.\<close>

definition page_top :: "element list" where
  "page_top =
     [Layout ''header'', Layout ''markdown'', Slider 241.7 739.3 488.43 1,
      Layout ''caption'', Slider 175.85 372.44 200.13 1, Layout ''caption'',
      Slider 62.51 68.01 65.04 1, Layout ''caption'', Layout ''title'', Layout ''markdown'']"

definition page_bottom :: "element list" where
  "page_bottom = [Layout ''divider'', Layout ''expander'', Layout ''markdown'']"

section \<open>Running the statements\<close>

lemmas py_defs = return_py_def raise_py_def bind_py_def seq_py_def try_except_Exception_def
  try_except_FileNotFoundError_def lookup_name_def assign_def st_def lift_py_def

lemma format_167: "format_2f_real (167 / 100) = ''1.67''"
  by (simp add: format_2f_real_def round_half_even_def Let_def decimal.simps digit_def)

lemma getitem0_Exception: "getitem0 v = Inl e \<Longrightarrow> is_Exception e"
  by (cases v rule: getitem0.cases) auto

lemma format_2f_Exception: "format_2f v = Inl e \<Longrightarrow> is_Exception e"
  by (cases v rule: format_2f.cases) auto

subsection \<open>The loader\<close>

lemma load_model_returns:
  "joblib_load w p = Inr m \<Longrightarrow> load_model w p s = (Inr m, s\<lparr>loads := loads s @ [p]\<rparr>)"
  by (simp add: load_model_def joblib_load_call_def py_defs)

lemma load_model_missing:
  "joblib_load w p = Inl FileNotFoundError \<Longrightarrow>
   load_model w p s =
     (Inr PNone, s\<lparr>loads := loads s @ [p], screen := screen s @ [Error_model_not_found p]\<rparr>)"
  by (simp add: load_model_def joblib_load_call_def py_defs)

lemma load_model_raises:
  "joblib_load w p = Inl e \<Longrightarrow> \<not> is_FileNotFoundError e \<Longrightarrow>
   load_model w p s = (Inl e, s\<lparr>loads := loads s @ [p]\<rparr>)"
  by (simp add: load_model_def joblib_load_call_def py_defs)

lemma load_model_frame:
  "load_model w p s = (r, s') \<Longrightarrow>
   globals s' = globals s \<and> predicts s' = predicts s \<and> cache s' = cache s"
  by (auto simp: load_model_def joblib_load_call_def py_defs split: sum.splits if_splits)

lemma load_model_cached_frame:
  "load_model_cached w p s = (r, s') \<Longrightarrow> globals s' = globals s \<and> predicts s' = predicts s"
  by (auto simp: load_model_cached_def cache_resource_def
      split: option.splits sum.splits prod.splits dest: load_model_frame)

lemma cached_hit:
  "cache s p = Some (v, els) \<Longrightarrow>
   load_model_cached w p s = (Inr v, s\<lparr>screen := screen s @ els\<rparr>)"
  by (simp add: load_model_cached_def cache_resource_def)

lemma cached_miss_returns:
  "cache s p = None \<Longrightarrow> joblib_load w p = Inr m \<Longrightarrow>
   load_model_cached w p s =
     (Inr m, s\<lparr>loads := loads s @ [p], cache := (cache s)(p \<mapsto> (m, []))\<rparr>)"
  by (simp add: load_model_cached_def cache_resource_def load_model_returns)

lemma cached_miss_missing:
  "cache s p = None \<Longrightarrow> joblib_load w p = Inl FileNotFoundError \<Longrightarrow>
   load_model_cached w p s =
     (Inr PNone, s\<lparr>loads := loads s @ [p], screen := screen s @ [Error_model_not_found p],
        cache := (cache s)(p \<mapsto> (PNone, [Error_model_not_found p]))\<rparr>)"
  by (simp add: load_model_cached_def cache_resource_def load_model_missing)

lemma cached_miss_raises:
  "cache s p = None \<Longrightarrow> joblib_load w p = Inl e \<Longrightarrow> \<not> is_FileNotFoundError e \<Longrightarrow>
   load_model_cached w p s = (Inl e, s\<lparr>loads := loads s @ [p]\<rparr>)"
  by (simp add: load_model_cached_def cache_resource_def load_model_raises)

text \<open>Once the cache holds an entry, no call reaches \<^verbatim>\<open>joblib.load\<close> any more.\<close>

lemma load_calls_hit:
  "cache s p = Some (v, els) \<Longrightarrow>
   fst (load_calls w p n s) = replicate n (Inr v) \<and>
   loads (snd (load_calls w p n s)) = loads s \<and>
   cache (snd (load_calls w p n s)) = cache s"
proof (induction n arbitrary: s)
  case 0
  show ?case by simp
next
  case (Suc n)
  let ?s' = "s\<lparr>screen := screen s @ els\<rparr>"
  have "cache ?s' p = Some (v, els)" using Suc.prems by simp
  from Suc.IH [OF this] show ?case
    by (auto simp: cached_hit [OF Suc.prems] split: prod.splits)
qed

lemma load_calls_memo:
  assumes "cache s p = None" "joblib_load w p = Inr m"
  shows "fst (load_calls w p n s) = replicate n (Inr m) \<and>
         loads (snd (load_calls w p n s)) = loads s @ (if n = 0 then [] else [p])"
proof (cases n)
  case 0
  then show ?thesis by simp
next
  case (Suc k)
  let ?s' = "s\<lparr>loads := loads s @ [p], cache := (cache s)(p \<mapsto> (m, []))\<rparr>"
  have "cache ?s' p = Some (m, [])" by simp
  from load_calls_hit [OF this, of w k] show ?thesis
    by (auto simp: Suc cached_miss_returns [OF assms] split: prod.splits)
qed

subsection \<open>The script up to the prediction\<close>

lemma sidebar_run:
  "sidebar u s =
     (Inr (), s\<lparr>globals := (globals s)(''flowrate1'' \<mapsto> slider_amina u,
                    ''Flowrate2'' \<mapsto> slider_air u, ''concentration'' \<mapsto> slider_iron u),
        screen := screen s @ [Layout ''header'', Layout ''markdown'', Slider 241.7 739.3 488.43 1,
          Layout ''caption'', Slider 175.85 372.44 200.13 1, Layout ''caption'',
          Slider 62.51 68.01 65.04 1, Layout ''caption'']\<rparr>)"
  by (simp add: sidebar_def py_defs)

lemma build_df_input_unbound:
  "globals s ''Flowrate1'' = None \<Longrightarrow> build_df_input s = (Inl (NameError ''Flowrate1''), s)"
  by (simp add: build_df_input_def py_defs)

lemma preamble_run: "preamble (fresh s) = (Inr (), at_load s)"
  by (simp add: at_load_def preamble_def py_defs)

lemma globals_at_load:
  "globals (at_load s) = [''joblib'' \<mapsto> PModule ''joblib'', ''st'' \<mapsto> PModule ''streamlit'',
        ''pd'' \<mapsto> PModule ''pandas'', ''load_model'' \<mapsto> PFunction ''load_model'']"
  by (simp add: at_load_def preamble_def fresh_def py_defs)

lemma at_load_fields:
  "screen (at_load s) = [Layout ''set_page_config'']" "cache (at_load s) = cache s"
  "loads (at_load s) = loads s" "predicts (at_load s) = predicts s"
  by (simp_all add: at_load_def preamble_def fresh_def py_defs)

lemma run_unfold:
  "run w u s =
     (case load_model_cached w ''modelo.joblib'' (at_load s) of
        (Inl e, s1) \<Rightarrow> (Inl e, s1)
      | (Inr m, s1) \<Rightarrow>
          seq_py (sidebar u)
         (seq_py (st (Layout ''title''))
         (seq_py (st (Layout ''markdown''))
         (seq_py (prediction_logic w u)
         (seq_py (st (Layout ''divider''))
         (seq_py (st (Layout ''expander''))
                 (st (Layout ''markdown''))))))) (s1\<lparr>globals := (globals s1)(''model'' \<mapsto> m)\<rparr>))"
  by (simp add: run_def script_def seq_py_def [of preamble] bind_py_def [of preamble] preamble_run
      bind_py_def [of "bind_py _ _"] bind_py_def [of "load_model_cached _ _"]
      seq_py_def [of "bind_py _ _"] assign_def split: prod.splits sum.splits)

lemma run_load_raises:
  "load_model_cached w ''modelo.joblib'' (at_load s) = (Inl e, s1) \<Longrightarrow> run w u s = (Inl e, s1)"
  by (simp add: run_unfold)

lemma run_loaded_pressed:
  assumes "load_model_cached w ''modelo.joblib'' (at_load s) = (Inr m, s1)" "m \<noteq> PNone" "button u"
  shows "run w u s = (Inl (NameError ''Flowrate1''),
     s1\<lparr>globals := (globals s1)(''model'' \<mapsto> m, ''flowrate1'' \<mapsto> slider_amina u,
                    ''Flowrate2'' \<mapsto> slider_air u, ''concentration'' \<mapsto> slider_iron u),
        screen := screen s1 @ page_top @ [Button]\<rparr>)"
proof -
  have g: "globals s1 ''Flowrate1'' = None"
    using load_model_cached_frame [OF assms(1)] by (simp add: globals_at_load)
  show ?thesis using assms g
    by (simp add: run_unfold sidebar_run prediction_logic_def
        build_df_input_unbound page_top_def py_defs)
qed

lemma run_loaded_idle:
  assumes "load_model_cached w ''modelo.joblib'' (at_load s) = (Inr m, s1)" "m \<noteq> PNone" "\<not> button u"
  shows "run w u s = (Inr (),
     s1\<lparr>globals := (globals s1)(''model'' \<mapsto> m, ''flowrate1'' \<mapsto> slider_amina u,
                    ''Flowrate2'' \<mapsto> slider_air u, ''concentration'' \<mapsto> slider_iron u),
        screen := screen s1 @ page_top @
          [Button, Layout ''divider'', Layout ''expander'', Layout ''markdown'']\<rparr>)"
  using assms
  by (simp add: run_unfold sidebar_run prediction_logic_def page_top_def py_defs)

lemma run_no_model:
  assumes "load_model_cached w ''modelo.joblib'' (at_load s) = (Inr PNone, s1)"
  shows "run w u s = (Inr (),
     s1\<lparr>globals := (globals s1)(''model'' \<mapsto> PNone, ''flowrate1'' \<mapsto> slider_amina u,
                    ''Flowrate2'' \<mapsto> slider_air u, ''concentration'' \<mapsto> slider_iron u),
        screen := screen s1 @ page_top @
          [Warning_model_not_loaded, Layout ''divider'', Layout ''expander'', Layout ''markdown'']\<rparr>)"
  using assms
  by (simp add: run_unfold sidebar_run prediction_logic_def page_top_def py_defs)

lemma prediction_logic_no_model:
  "globals s ''model'' = Some PNone \<Longrightarrow>
   prediction_logic w u s = (Inr (), s\<lparr>screen := screen s @ [Warning_model_not_loaded]\<rparr>)"
  by (simp add: prediction_logic_def py_defs)

lemma run_missing:
  assumes "joblib_load w ''modelo.joblib'' = Inl FileNotFoundError" "cache s ''modelo.joblib'' = None"
  shows "fst (run w u s) = Inr () \<and>
         screen (snd (run w u s)) =
           Layout ''set_page_config'' # Error_model_not_found ''modelo.joblib'' # page_top
             @ Warning_model_not_loaded # page_bottom"
proof -
  have c: "cache (at_load s) ''modelo.joblib'' = None"
    using assms(2) by (simp add: at_load_fields)
  show ?thesis
    unfolding run_no_model [OF cached_miss_missing [OF c assms(1)]]
    by (simp add: at_load_fields page_bottom_def)
qed

lemma run_load_failure:
  assumes "joblib_load w ''modelo.joblib'' = Inl e" "\<not> is_FileNotFoundError e"
    "cache s ''modelo.joblib'' = None"
  shows "fst (run w u s) = Inl e \<and> screen (snd (run w u s)) = [Layout ''set_page_config'']"
proof -
  have c: "cache (at_load s) ''modelo.joblib'' = None"
    using assms(3) by (simp add: at_load_fields)
  show ?thesis
    unfolding run_load_raises [OF cached_miss_raises [OF c assms(1,2)]]
    by (simp add: at_load_fields)
qed

text \<open>A run that finds the model in the cache.\<close>

lemma run_cached:
  assumes "cache s ''modelo.joblib'' = Some (m, els)"
  shows "fst (run w u s) = (if m \<noteq> PNone \<and> button u then Inl (NameError ''Flowrate1'') else Inr ()) \<and>
         screen (snd (run w u s)) = Layout ''set_page_config'' # els @ page_top @
            (if m = PNone then Warning_model_not_loaded # page_bottom
             else if button u then [Button] else Button # page_bottom) \<and>
         cache (snd (run w u s)) = cache s \<and> loads (snd (run w u s)) = loads s \<and>
         predicts (snd (run w u s)) = predicts s"
proof -
  have c: "cache (at_load s) ''modelo.joblib'' = Some (m, els)"
    using assms by (simp add: at_load_fields)
  note l = cached_hit [OF c, of w]
  show ?thesis
  proof (cases "m = PNone")
    case True
    show ?thesis
      unfolding run_no_model [OF l [unfolded True]]
      by (simp add: True at_load_fields page_bottom_def)
  next
    case False
    show ?thesis
    proof (cases "button u")
      case True
      show ?thesis unfolding run_loaded_pressed [OF l False True]
        by (simp add: False True at_load_fields)
    next
      case b: False
      show ?thesis unfolding run_loaded_idle [OF l False b]
        by (simp add: False b at_load_fields page_bottom_def)
    qed
  qed
qed

subsection \<open>The \<^verbatim>\<open>try\<close> statement\<close>

lemma call_predict_run:
  "globals s ''model'' = Some m \<Longrightarrow> predict_of w m = Some f \<Longrightarrow>
   globals s ''df_input'' = Some df \<Longrightarrow>
   call_predict w s = (f df, s\<lparr>predicts := predicts s @ [df]\<rparr>)"
  by (simp add: call_predict_def py_defs)

lemma predict_try_raises:
  assumes "globals s ''model'' = Some m" "predict_of w m = Some f"
    "globals s ''df_input'' = Some df" "f df = Inl e" "is_Exception e"
  shows "predict_try w s =
     (Inr (), s\<lparr>predicts := predicts s @ [df], screen := screen s @ [Error_prediction e]\<rparr>)"
  using assms(4,5)
  by (simp add: predict_try_def try_except_Exception_def bind_py_def [of "call_predict w"]
      call_predict_run [OF assms(1,2,3)] st_def)

text \<open>\<^verbatim>\<open>except Exception\<close> lets what derives from \<^verbatim>\<open>BaseException\<close> only pass.\<close>

lemma predict_try_escapes:
  assumes "globals s ''model'' = Some m" "predict_of w m = Some f"
    "globals s ''df_input'' = Some df" "f df = Inl e" "\<not> is_Exception e"
  shows "predict_try w s = (Inl e, s\<lparr>predicts := predicts s @ [df]\<rparr>)"
  using assms(4,5)
  by (simp add: predict_try_def try_except_Exception_def bind_py_def [of "call_predict w"]
      call_predict_run [OF assms(1,2,3)] st_def)

lemma predict_try_returns:
  assumes "globals s ''model'' = Some m" "predict_of w m = Some f"
    "globals s ''df_input'' = Some df" "f df = Inr cv"
  shows "predict_try w s =
     (Inr (), s\<lparr>predicts := predicts s @ [df],
        globals := (globals s)(''concentration_value'' \<mapsto> cv),
        screen := screen s @ Subheader_result #
          (case getitem0 cv of
             Inl e \<Rightarrow> [Error_prediction e]
           | Inr x \<Rightarrow> (case format_2f x of
                Inl e \<Rightarrow> [Error_prediction e]
              | Inr txt \<Rightarrow> [Success_predicted (txt @ ''%''), Info_result]))\<rparr>)"
  using assms(4)
  apply (simp add: predict_try_def try_except_Exception_def bind_py_def [of "call_predict w"]
      call_predict_run [OF assms(1,2,3)] show_success_def)
  apply (auto simp: py_defs split: sum.splits dest: getitem0_Exception format_2f_Exception)
  done

lemma predict_try_no_attr:
  assumes "globals s ''model'' = Some m" "predict_of w m = None"
  shows "predict_try w s = (Inr (), s\<lparr>screen := screen s @ [Error_prediction AttributeError]\<rparr>)"
  using assms
  by (simp add: predict_try_def call_predict_def py_defs)

text \<open>
  What the \<^verbatim>\<open>try\<close> statement returns and displays is fixed by the model and the
  record alone; the cache and the record of loads are left as they were.
\<close>

lemma predict_try_effect:
  assumes "predict_of w m = Some f"
  shows "\<exists>r els. \<forall>t. globals t ''model'' = Some m \<longrightarrow> globals t ''df_input'' = Some df \<longrightarrow>
           fst (predict_try w t) = r \<and> screen (snd (predict_try w t)) = screen t @ els \<and>
           cache (snd (predict_try w t)) = cache t \<and> loads (snd (predict_try w t)) = loads t"
proof (cases "f df")
  case (Inl e)
  show ?thesis
  proof (cases "is_Exception e")
    case True
    show ?thesis
      by (rule exI [of _ "Inr ()"], rule exI [of _ "[Error_prediction e]"])
         (simp add: predict_try_raises [OF _ assms _ Inl True])
  next
    case False
    show ?thesis
      by (rule exI [of _ "Inl e"], rule exI [of _ "[]"])
         (simp add: predict_try_escapes [OF _ assms _ Inl False])
  qed
next
  case (Inr cv)
  let ?els = "Subheader_result #
        (case getitem0 cv of
           Inl e \<Rightarrow> [Error_prediction e]
         | Inr x \<Rightarrow> (case format_2f x of
              Inl e \<Rightarrow> [Error_prediction e]
            | Inr txt \<Rightarrow> [Success_predicted (txt @ ''%''), Info_result]))"
  show ?thesis
    by (rule exI [of _ "Inr ()"], rule exI [of _ ?els])
       (simp add: predict_try_returns [OF _ assms _ Inr])
qed

subsection \<open>The stubs\<close>

lemma load_failure_world_load: "joblib_load (load_failure_world e) p = Inl e"
  by (simp add: load_failure_world_def)

lemma stub_world_load:
  "load_model_cached (stub_world r) ''modelo.joblib'' (at_load process_start) =
     (Inr (PObj 0), (at_load process_start)\<lparr>loads := [''modelo.joblib''],
        cache := [''modelo.joblib'' \<mapsto> (PObj 0, [])]\<rparr>)"
proof -
  have "cache (at_load process_start) ''modelo.joblib'' = None"
    by (simp add: at_load_fields process_start_def)
  moreover have "joblib_load (stub_world r) ''modelo.joblib'' = Inr (PObj 0)"
    by (simp add: stub_world_def)
  ultimately show ?thesis
    by (simp add: cached_miss_returns at_load_fields process_start_def)
qed

lemma stub_world_run_pressed:
  "fst (run (stub_world r) (sliders a b c True) process_start) = Inl (NameError ''Flowrate1'') \<and>
   screen (snd (run (stub_world r) (sliders a b c True) process_start)) =
     Layout ''set_page_config'' # page_top @ [Button] \<and>
   predicts (snd (run (stub_world r) (sliders a b c True) process_start)) = []"
proof -
  have b: "button (sliders a b c True)" by (simp add: sliders_def)
  have n: "PObj 0 \<noteq> PNone" by simp
  show ?thesis
    unfolding run_loaded_pressed [OF stub_world_load n b]
    by (simp add: at_load_fields process_start_def)
qed

lemma ready_bound:
  "globals (ready df) ''model'' = Some (PObj 0)"
  "predict_of (stub_world r) (PObj 0) = Some (\<lambda>df. r)"
  "globals (ready df) ''df_input'' = Some df"
  by (simp_all add: ready_def stub_world_def)

lemma ready_fields:
  "screen (ready df) = []" "predicts (ready df) = []" "cache (ready df) = Map.empty"
  by (simp_all add: ready_def process_start_def)

text \<open>
  Handed a record, the \<^verbatim>\<open>try\<close> statement with the stub that answers 1.67 shows
  the value with two decimals.
\<close>

lemma predict_try_stub_167:
  "predict_try stub_167 (ready df) =
     (Inr (), (ready df)\<lparr>predicts := [df],
        globals := (globals (ready df))(''concentration_value'' \<mapsto> PList [PFloat 1.67]),
        screen := [Subheader_result, Success_predicted ''1.67%'', Info_result]\<rparr>)"
proof -
  have "(\<lambda>df. Inr (PList [PFloat 1.67])) df = (Inr (PList [PFloat 1.67]) :: exn + pyval)"
    by simp
  from predict_try_returns [OF ready_bound this] show ?thesis
    by (simp add: stub_167_def ready_fields format_167)
qed

section \<open>The claims\<close>

text \<open>
  C1. With a stub model that answers the fixed value 1.67, the prediction for the inputs
  AminaFlow 488.43, AirFlow 200.13, IronConcentrate 65.04 should display \<open>1.67%\<close>.
  The script does not get there: at the scenario's inputs, with the button pressed, the
  run ends with the uncaught \<^verbatim>\<open>NameError\<close> for \<^verbatim>\<open>Flowrate1\<close> (the slider bound
  \<^verbatim>\<open>flowrate1\<close>); the page stops at the button, nothing is displayed after it, and the
  model's \<^verbatim>\<open>predict\<close> has not been called.
\<close>

theorem scenario_run_raises_NameError:
  "fst (run stub_167 scenario process_start) = Inl (NameError ''Flowrate1'') \<and>
   screen (snd (run stub_167 scenario process_start)) =
     Layout ''set_page_config'' # page_top @ [Button] \<and>
   predicts (snd (run stub_167 scenario process_start)) = []"
  unfolding stub_167_def scenario_def by (rule stub_world_run_pressed)

text \<open>
  C2. Whenever the load of line 28 gave an object other than \<^verbatim>\<open>None\<close> (so that the
  button is on the page) and the button is pressed, then for every position of the three
  sliders the run ends with the uncaught \<^verbatim>\<open>NameError\<close> for \<^verbatim>\<open>Flowrate1\<close>: the
  record is built outside the \<^verbatim>\<open>try\<close> statement. The model's \<^verbatim>\<open>predict\<close> has
  not been called, and the button is the last element on the page.
\<close>

theorem button_press_raises_NameError:
  assumes "fst (load_model_cached w ''modelo.joblib'' (at_load s)) = Inr m" "m \<noteq> PNone" "button u"
  shows "fst (run w u s) = Inl (NameError ''Flowrate1'') \<and>
         predicts (snd (run w u s)) = predicts s \<and>
         last (screen (snd (run w u s))) = Button"
proof -
  obtain s1 where l: "load_model_cached w ''modelo.joblib'' (at_load s) = (Inr m, s1)"
    using assms(1) by (cases "load_model_cached w ''modelo.joblib'' (at_load s)") simp
  have "predicts s1 = predicts s"
    using load_model_cached_frame [OF l] by (simp add: at_load_fields)
  then show ?thesis
    by (simp add: run_loaded_pressed [OF l assms(2,3)])
qed

theorem button_press_raises_NameError_witness:
  "fst (load_model_cached stub_167 ''modelo.joblib'' (at_load process_start)) = Inr (PObj 0) \<and>
   PObj 0 \<noteq> PNone \<and> button scenario \<and>
   fst (run stub_167 scenario process_start) = Inl (NameError ''Flowrate1'') \<and>
   predicts (snd (run stub_167 scenario process_start)) = predicts process_start \<and>
   last (screen (snd (run stub_167 scenario process_start))) = Button"
proof -
  have l: "fst (load_model_cached stub_167 ''modelo.joblib'' (at_load process_start)) = Inr (PObj 0)"
    by (simp add: stub_167_def stub_world_load)
  have n: "PObj 0 \<noteq> PNone" by simp
  have b: "button scenario" by (simp add: scenario_def sliders_def)
  from button_press_raises_NameError [OF l n b] l n b show ?thesis by simp
qed

text \<open>
  C3, as claimed: a model file that fails to deserialise for another reason than being
  absent is reported as a non-fatal load error, with a warning. It is not: when
  \<^verbatim>\<open>joblib.load\<close> raises an unpickling error, the run of the script ends with that
  exception uncaught, and the page holds nothing but the page configuration: no warning.
\<close>

theorem corrupt_model_file_aborts_run:
  "fst (run (load_failure_world (OtherException ''UnpicklingError'')) idle process_start)
     = Inl (OtherException ''UnpicklingError'') \<and>
   screen (snd (run (load_failure_world (OtherException ''UnpicklingError'')) idle process_start))
     = [Layout ''set_page_config'']"
  by (rule run_load_failure) (simp_all add: load_failure_world_load process_start_def)

text \<open>
  C3, amended. When the model file is absent (\<^verbatim>\<open>joblib.load\<close> raises
  \<^verbatim>\<open>FileNotFoundError\<close>), the loader displays the error naming the path and returns
  \<^verbatim>\<open>None\<close>; with \<^verbatim>\<open>model\<close> bound to \<^verbatim>\<open>None\<close> the caller displays the warning
  and nothing else (no button). Any other exception of \<^verbatim>\<open>joblib.load\<close> is not caught:
  it leaves the loader, and a run that has to load the file ends with it.
\<close>

theorem load_model_failure_handling:
  "(joblib_load w p = Inl FileNotFoundError \<longrightarrow>
      load_model w p s =
        (Inr PNone, s\<lparr>loads := loads s @ [p], screen := screen s @ [Error_model_not_found p]\<rparr>)) \<and>
   (globals s ''model'' = Some PNone \<longrightarrow>
      prediction_logic w u s = (Inr (), s\<lparr>screen := screen s @ [Warning_model_not_loaded]\<rparr>)) \<and>
   (joblib_load w p = Inl e \<and> \<not> is_FileNotFoundError e \<longrightarrow>
      load_model w p s = (Inl e, s\<lparr>loads := loads s @ [p]\<rparr>)) \<and>
   (joblib_load w ''modelo.joblib'' = Inl e \<and> \<not> is_FileNotFoundError e \<and>
    cache s ''modelo.joblib'' = None \<longrightarrow> fst (run w u s) = Inl e)"
  by (simp add: load_model_missing load_model_raises prediction_logic_no_model run_load_failure)

theorem load_model_failure_handling_witness:
  "joblib_load (load_failure_world FileNotFoundError) ''modelo.joblib'' = Inl FileNotFoundError \<and>
   load_model (load_failure_world FileNotFoundError) ''modelo.joblib'' process_start =
     (Inr PNone, process_start\<lparr>loads := [''modelo.joblib''],
        screen := [Error_model_not_found ''modelo.joblib'']\<rparr>) \<and>
   globals (process_start\<lparr>globals := [''model'' \<mapsto> PNone]\<rparr>) ''model'' = Some PNone \<and>
   prediction_logic (load_failure_world FileNotFoundError) idle
       (process_start\<lparr>globals := [''model'' \<mapsto> PNone]\<rparr>) =
     (Inr (), process_start\<lparr>globals := [''model'' \<mapsto> PNone], screen := [Warning_model_not_loaded]\<rparr>) \<and>
   joblib_load (load_failure_world ValueError) ''modelo.joblib'' = Inl ValueError \<and>
   \<not> is_FileNotFoundError ValueError \<and>
   cache process_start ''modelo.joblib'' = None \<and>
   load_model (load_failure_world ValueError) ''modelo.joblib'' process_start =
     (Inl ValueError, process_start\<lparr>loads := [''modelo.joblib'']\<rparr>) \<and>
   fst (run (load_failure_world ValueError) idle process_start) = Inl ValueError"
  using load_model_failure_handling [of "load_failure_world FileNotFoundError" "''modelo.joblib''"
      process_start idle FileNotFoundError]
    load_model_failure_handling [of "load_failure_world FileNotFoundError" "''modelo.joblib''"
      "process_start\<lparr>globals := [''model'' \<mapsto> PNone]\<rparr>" idle FileNotFoundError]
    load_model_failure_handling [of "load_failure_world ValueError" "''modelo.joblib''"
      process_start idle ValueError]
  by (simp add: load_failure_world_load process_start_def)

text \<open>
  C4. In the \<^verbatim>\<open>try\<close> statement, with the model and the record bound, every exception
  (an instance of Python's \<^verbatim>\<open>Exception\<close>) that the model's \<^verbatim>\<open>predict\<close> raises is
  caught: the statement completes, the page gains the error message carrying that
  exception and nothing else, and the call has been made once, with the record.
\<close>

theorem predict_exception_is_reported:
  assumes "globals s ''model'' = Some m" "predict_of w m = Some f"
    "globals s ''df_input'' = Some df" "f df = Inl e" "is_Exception e"
  shows "fst (predict_try w s) = Inr () \<and>
         screen (snd (predict_try w s)) = screen s @ [Error_prediction e] \<and>
         predicts (snd (predict_try w s)) = predicts s @ [df]"
  by (simp add: predict_try_raises [OF assms])

theorem predict_exception_is_reported_witness:
  "globals (ready scenario_record) ''model'' = Some (PObj 0) \<and>
   predict_of (stub_world (Inl (OtherException ''shape mismatch''))) (PObj 0)
     = Some (\<lambda>df. Inl (OtherException ''shape mismatch'')) \<and>
   globals (ready scenario_record) ''df_input'' = Some scenario_record \<and>
   is_Exception (OtherException ''shape mismatch'') \<and>
   fst (predict_try (stub_world (Inl (OtherException ''shape mismatch''))) (ready scenario_record))
     = Inr () \<and>
   screen (snd (predict_try (stub_world (Inl (OtherException ''shape mismatch'')))
       (ready scenario_record)))
     = [Error_prediction (OtherException ''shape mismatch'')]"
proof -
  have e: "(\<lambda>df. Inl (OtherException ''shape mismatch'')) scenario_record
             = (Inl (OtherException ''shape mismatch'') :: exn + pyval)" by simp
  have i: "is_Exception (OtherException ''shape mismatch'')" by simp
  from predict_exception_is_reported [OF ready_bound e i] i
  show ?thesis by (simp add: ready_fields ready_bound)
qed

text \<open>
  C5. For every path whose file is absent (\<^verbatim>\<open>joblib.load\<close> raises
  \<^verbatim>\<open>FileNotFoundError\<close>) and not yet cached, the decorated loader returns \<^verbatim>\<open>None\<close>
  after displaying the error that names the path, and raises nothing. For the script's
  path the run then completes; the page shows that error and the warning, and no button.
\<close>

theorem missing_model_file_reported:
  assumes "joblib_load w p = Inl FileNotFoundError" "cache s p = None"
  shows "load_model_cached w p s =
           (Inr PNone, s\<lparr>loads := loads s @ [p], screen := screen s @ [Error_model_not_found p],
              cache := (cache s)(p \<mapsto> (PNone, [Error_model_not_found p]))\<rparr>) \<and>
         (p = ''modelo.joblib'' \<longrightarrow>
            fst (run w u s) = Inr () \<and>
            screen (snd (run w u s)) =
              Layout ''set_page_config'' # Error_model_not_found ''modelo.joblib'' # page_top
                @ Warning_model_not_loaded # page_bottom \<and>
            Button \<notin> set (screen (snd (run w u s))))"
proof -
  have l: "load_model_cached w p s =
           (Inr PNone, s\<lparr>loads := loads s @ [p], screen := screen s @ [Error_model_not_found p],
              cache := (cache s)(p \<mapsto> (PNone, [Error_model_not_found p]))\<rparr>)"
    by (rule cached_miss_missing [OF assms(2,1)])
  have r: "fst (run w u s) = Inr () \<and>
            screen (snd (run w u s)) =
              Layout ''set_page_config'' # Error_model_not_found ''modelo.joblib'' # page_top
                @ Warning_model_not_loaded # page_bottom \<and>
            Button \<notin> set (screen (snd (run w u s)))" if "p = ''modelo.joblib''"
  proof -
    from assms that have "joblib_load w ''modelo.joblib'' = Inl FileNotFoundError"
      "cache s ''modelo.joblib'' = None" by simp_all
    from run_missing [OF this, of u] show ?thesis
      by (simp add: page_top_def page_bottom_def)
  qed
  from l r show ?thesis by blast
qed

theorem missing_model_file_reported_witness:
  "joblib_load (load_failure_world FileNotFoundError) ''modelo.joblib'' = Inl FileNotFoundError \<and>
   cache process_start ''modelo.joblib'' = None \<and>
   fst (run (load_failure_world FileNotFoundError) idle process_start) = Inr () \<and>
   Button \<notin> set (screen (snd (run (load_failure_world FileNotFoundError) idle process_start)))"
proof -
  have a: "joblib_load (load_failure_world FileNotFoundError) ''modelo.joblib'' = Inl FileNotFoundError"
    by (rule load_failure_world_load)
  have b: "cache process_start ''modelo.joblib'' = None" by (simp add: process_start_def)
  from missing_model_file_reported [OF a b, of idle] a b show ?thesis by blast
qed

text \<open>
  C6. When the file at a path deserialises to a model and the path is not cached yet,
  then for every \<open>n\<close>, \<open>n\<close> calls of the decorated loader with that path all return that
  same model, and \<^verbatim>\<open>joblib.load\<close> has been called once if \<open>n > 0\<close> and not at all
  otherwise: at most once.
\<close>

theorem load_is_memoized:
  assumes "cache s p = None" "joblib_load w p = Inr m"
  shows "fst (load_calls w p n s) = replicate n (Inr m) \<and>
         loads (snd (load_calls w p n s)) = loads s @ (if n = 0 then [] else [p]) \<and>
         length (loads (snd (load_calls w p n s))) \<le> length (loads s) + 1"
  using load_calls_memo [OF assms, of n] by simp

theorem load_is_memoized_witness:
  "cache process_start ''modelo.joblib'' = None \<and>
   joblib_load stub_167 ''modelo.joblib'' = Inr (PObj 0) \<and>
   fst (load_calls stub_167 ''modelo.joblib'' 3 process_start)
     = [Inr (PObj 0), Inr (PObj 0), Inr (PObj 0)] \<and>
   loads (snd (load_calls stub_167 ''modelo.joblib'' 3 process_start)) = [''modelo.joblib'']"
proof -
  have a: "cache process_start ''modelo.joblib'' = None" by (simp add: process_start_def)
  have b: "joblib_load stub_167 ''modelo.joblib'' = Inr (PObj 0)"
    by (simp add: stub_167_def stub_world_def)
  have c: "loads process_start = []" by (simp add: process_start_def)
  from load_is_memoized [OF a b, of 3] a b c show ?thesis
    by (simp add: numeral_3_eq_3)
qed

text \<open>
  C7. At the boundary values of the three ranges the prediction should complete. At the
  three lower bounds, and at the three upper bounds, with the button pressed, the run
  ends with the uncaught \<^verbatim>\<open>NameError\<close> for \<^verbatim>\<open>Flowrate1\<close>.
\<close>

theorem boundary_run_raises_NameError:
  "fst (run stub_167 (sliders (PFloat 241.7) (PFloat 175.85) (PFloat 62.51) True) process_start)
     = Inl (NameError ''Flowrate1'') \<and>
   fst (run stub_167 (sliders (PFloat 739.3) (PFloat 372.44) (PFloat 68.01) True) process_start)
     = Inl (NameError ''Flowrate1'')"
  unfolding stub_167_def by (simp add: stub_world_run_pressed)



text \<open>
  C9. Two runs of the script that find the same model in the cache and get the same
  inputs end alike and render the same page, and the cache after the run is the cache
  before it. Likewise two executions of the \<^verbatim>\<open>try\<close> statement with the same model and
  the same record, in whatever states otherwise: they end alike, add the same elements
  to the page, and leave the cache as it was. (The model's \<^verbatim>\<open>predict\<close> is a function
  of the record here.)
\<close>

theorem prediction_deterministic_and_pure:
  assumes "cache s1 ''modelo.joblib'' = Some c" "cache s2 ''modelo.joblib'' = Some c"
    and "globals t1 ''model'' = Some m" "globals t2 ''model'' = Some m" "predict_of w m = Some f"
    and "globals t1 ''df_input'' = Some df" "globals t2 ''df_input'' = Some df"
  shows "fst (run w u s1) = fst (run w u s2) \<and>
         screen (snd (run w u s1)) = screen (snd (run w u s2)) \<and>
         cache (snd (run w u s1)) = cache s1 \<and>
         fst (predict_try w t1) = fst (predict_try w t2) \<and>
         drop (length (screen t1)) (screen (snd (predict_try w t1)))
           = drop (length (screen t2)) (screen (snd (predict_try w t2))) \<and>
         cache (snd (predict_try w t1)) = cache t1"
proof -
  obtain v els where c: "c = (v, els)" by (cases c)
  have a: "fst (run w u s1) = fst (run w u s2) \<and>
         screen (snd (run w u s1)) = screen (snd (run w u s2)) \<and>
         cache (snd (run w u s1)) = cache s1"
    using run_cached [OF assms(1) [unfolded c], of w u] run_cached [OF assms(2) [unfolded c], of w u]
    by simp
  from predict_try_effect [OF assms(5), of df] obtain r out where
    e: "\<And>t. globals t ''model'' = Some m \<Longrightarrow> globals t ''df_input'' = Some df \<Longrightarrow>
           fst (predict_try w t) = r \<and> screen (snd (predict_try w t)) = screen t @ out \<and>
           cache (snd (predict_try w t)) = cache t \<and> loads (snd (predict_try w t)) = loads t"
    by blast
  from e [OF assms(3,6)] e [OF assms(4,7)] a show ?thesis by simp
qed

theorem prediction_deterministic_and_pure_witness:
  "cache loaded_state ''modelo.joblib'' = Some (PObj 0, []) \<and>
   cache (loaded_state\<lparr>loads := [''modelo.joblib'']\<rparr>) ''modelo.joblib'' = Some (PObj 0, []) \<and>
   globals (ready scenario_record) ''model'' = Some (PObj 0) \<and>
   globals ((ready scenario_record)\<lparr>screen := [Button]\<rparr>) ''model'' = Some (PObj 0) \<and>
   predict_of stub_167 (PObj 0) = Some (\<lambda>df. Inr (PList [PFloat 1.67])) \<and>
   globals (ready scenario_record) ''df_input'' = Some scenario_record \<and>
   globals ((ready scenario_record)\<lparr>screen := [Button]\<rparr>) ''df_input'' = Some scenario_record \<and>
   fst (run stub_167 scenario loaded_state)
     = fst (run stub_167 scenario (loaded_state\<lparr>loads := [''modelo.joblib'']\<rparr>)) \<and>
   screen (snd (run stub_167 scenario loaded_state))
     = screen (snd (run stub_167 scenario (loaded_state\<lparr>loads := [''modelo.joblib'']\<rparr>))) \<and>
   cache (snd (run stub_167 scenario loaded_state)) = cache loaded_state \<and>
   fst (predict_try stub_167 (ready scenario_record))
     = fst (predict_try stub_167 ((ready scenario_record)\<lparr>screen := [Button]\<rparr>)) \<and>
   drop (length (screen (ready scenario_record)))
       (screen (snd (predict_try stub_167 (ready scenario_record))))
     = drop (length (screen ((ready scenario_record)\<lparr>screen := [Button]\<rparr>)))
       (screen (snd (predict_try stub_167 ((ready scenario_record)\<lparr>screen := [Button]\<rparr>)))) \<and>
   cache (snd (predict_try stub_167 (ready scenario_record))) = cache (ready scenario_record)"
proof -
  have s1: "cache loaded_state ''modelo.joblib'' = Some (PObj 0, [])"
    by (simp add: loaded_state_def)
  have s2: "cache (loaded_state\<lparr>loads := [''modelo.joblib'']\<rparr>) ''modelo.joblib'' = Some (PObj 0, [])"
    by (simp add: loaded_state_def)
  have t1: "globals (ready scenario_record) ''model'' = Some (PObj 0)" by (rule ready_bound)
  have t2: "globals ((ready scenario_record)\<lparr>screen := [Button]\<rparr>) ''model'' = Some (PObj 0)"
    by (simp add: ready_bound)
  have p: "predict_of stub_167 (PObj 0) = Some (\<lambda>df. Inr (PList [PFloat 1.67]))"
    unfolding stub_167_def by (rule ready_bound)
  have d1: "globals (ready scenario_record) ''df_input'' = Some scenario_record"
    by (rule ready_bound)
  have d2: "globals ((ready scenario_record)\<lparr>screen := [Button]\<rparr>) ''df_input'' = Some scenario_record"
    by (simp add: ready_bound)
  from prediction_deterministic_and_pure [OF s1 s2 t1 t2 p d1 d2, of scenario]
  show ?thesis using s1 s2 t1 t2 p d1 d2 by blast
qed

text \<open>
  C10. In the \<^verbatim>\<open>try\<close> statement, when \<^verbatim>\<open>predict\<close> returns a value whose element 0
  cannot be taken (an empty sequence) or whose element 0 cannot be formatted with
  \<^verbatim>\<open>.2f\<close>, the exception is caught there: the statement completes, and the page
  gains the subheader followed by the error message carrying that exception.
\<close>

theorem extraction_failure_is_reported:
  assumes "globals s ''model'' = Some m" "predict_of w m = Some f"
    "globals s ''df_input'' = Some df" "f df = Inr cv"
    "getitem0 cv = Inl e \<or> (\<exists>x. getitem0 cv = Inr x \<and> format_2f x = Inl e)"
  shows "fst (predict_try w s) = Inr () \<and>
         screen (snd (predict_try w s)) = screen s @ [Subheader_result, Error_prediction e]"
  using assms(5) by (auto simp: predict_try_returns [OF assms(1-4)])

theorem extraction_failure_is_reported_witness:
  "getitem0 (PList []) = Inl IndexError \<and>
   fst (predict_try (stub_world (Inr (PList []))) (ready scenario_record)) = Inr () \<and>
   screen (snd (predict_try (stub_world (Inr (PList []))) (ready scenario_record)))
     = [Subheader_result, Error_prediction IndexError] \<and>
   getitem0 (PList [PNone]) = Inr PNone \<and> format_2f PNone = Inl TypeError \<and>
   screen (snd (predict_try (stub_world (Inr (PList [PNone]))) (ready scenario_record)))
     = [Subheader_result, Error_prediction TypeError]"
proof -
  have e1: "(\<lambda>df. Inr (PList [])) scenario_record = (Inr (PList []) :: exn + pyval)" by simp
  have e2: "(\<lambda>df. Inr (PList [PNone])) scenario_record = (Inr (PList [PNone]) :: exn + pyval)"
    by simp
  have g1: "getitem0 (PList []) = Inl IndexError \<or>
            (\<exists>x. getitem0 (PList []) = Inr x \<and> format_2f x = Inl IndexError)" by simp
  have g2: "getitem0 (PList [PNone]) = Inl TypeError \<or>
            (\<exists>x. getitem0 (PList [PNone]) = Inr x \<and> format_2f x = Inl TypeError)" by simp
  from extraction_failure_is_reported [OF ready_bound e1 g1]
       extraction_failure_is_reported [OF ready_bound e2 g2]
  show ?thesis by (simp add: ready_fields)
qed

end
